theory Spec2Isabelle
  imports Complex_Main "HOL-Library.Finite_Map"
begin

section \<open>Python values\<close>

text \<open>
  A Python \<open>str\<close> is a sequence of Unicode code points.  The messages of \<open>app.py\<close>
  contain the code points U+00E1 and U+2014, and \<open>int()\<close> reads non-ASCII digits, so a
  string is a list of code points; \<open>ustr\<close> embeds an ASCII literal.
\<close>

type_synonym pystr = "nat list"

definition ustr :: "string \<Rightarrow> pystr" where
  "ustr s = map of_char s"

text \<open>
  A Python \<open>float\<close> is carried by its exact value: a finite double is a rational number;
  \<open>nan\<close> and the two infinities are values of their own.  Nothing here rounds.
\<close>

datatype pyfloat = Finite rat | NaN | PosInf | NegInf

text \<open>
  What \<open>json.load\<close> and \<open>request.get_json\<close> produce: \<open>None\<close>, \<open>bool\<close>, \<open>int\<close>,
  \<open>float\<close>, \<open>str\<close>, \<open>list\<close> and \<open>dict\<close> with \<open>str\<close> keys.
\<close>

datatype json =
    JNull
  | JBool bool
  | JInt int
  | JFloat pyfloat
  | JStr pystr
  | JArr "json list"
  | JObj "(pystr, json) fmap"

type_synonym pydict = "(pystr, json) fmap"

datatype py_error = OSError | ValueError | TypeError | OverflowError | AttributeError

text \<open>Truth value of an object, as \<open>payload or {}\<close> tests it.\<close>

fun truthy :: "json \<Rightarrow> bool" where
  "truthy JNull = False"
| "truthy (JBool b) = b"
| "truthy (JInt n) = (n \<noteq> 0)"
| "truthy (JFloat (Finite q)) = (q \<noteq> 0)"
| "truthy (JFloat _) = True"
| "truthy (JStr s) = (s \<noteq> [])"
| "truthy (JArr xs) = (xs \<noteq> [])"
| "truthy (JObj d) = (fmdom d \<noteq> {||})"

subsection \<open>The built-in \<open>int()\<close>\<close>

text \<open>
  \<open>int(x)\<close> of CPython 3.11 (Unicode 14.0): an \<open>int\<close> is returned as it is, a \<open>bool\<close>
  is 0 or 1, a finite \<open>float\<close> is truncated toward zero, \<open>nan\<close> raises \<open>ValueError\<close>,
  an infinity \<open>OverflowError\<close>, \<open>None\<close>, a list and a dict \<open>TypeError\<close>.  A \<open>str\<close> is
  stripped of white space, then read as an optional sign and decimal digits of any
  script, single underscores allowed between digits; more than 4300 digits raise
  \<open>ValueError\<close>, as every other malformed literal does.
\<close>

definition decimal_zeros :: "nat list" where
  "decimal_zeros =
    [48, 1632, 1776, 1984, 2406, 2534, 2662, 2790, 2918, 3046, 3174, 3302, 3430, 3558,
     3664, 3792, 3872, 4160, 4240, 6112, 6160, 6470, 6608, 6784, 6800, 6992, 7088, 7232,
     7248, 42528, 43216, 43264, 43472, 43504, 43600, 44016, 65296, 66720, 68912, 69734,
     69872, 69942, 70096, 70384, 70736, 70864, 71248, 71360, 71472, 71904, 72016, 72784,
     73040, 73120, 92768, 92864, 93008, 120782, 120792, 120802, 120812, 120822, 123200,
     123632, 125264, 130032]"

definition unicode_decimal :: "nat \<Rightarrow> nat option" where
  "unicode_decimal c =
     map_option (\<lambda>z. c - z) (find (\<lambda>z. z \<le> c \<and> c < z + 10) decimal_zeros)"

definition is_space :: "nat \<Rightarrow> bool" where
  "is_space c \<longleftrightarrow>
     (9 \<le> c \<and> c \<le> 13) \<or> c = 32 \<or> c = 133 \<or> c = 160 \<or> c = 5760 \<or>
     (8192 \<le> c \<and> c \<le> 8202) \<or> c = 8232 \<or> c = 8233 \<or> c = 8239 \<or> c = 8287 \<or>
     c = 12288"

definition strip :: "pystr \<Rightarrow> pystr" where
  "strip s = rev (dropWhile is_space (rev (dropWhile is_space s)))"

text \<open>Digits with single underscores between them; the result is the digit values.\<close>

fun scan_digits :: "pystr \<Rightarrow> nat list option" where
  "scan_digits [] = None"
| "scan_digits [c] = map_option (\<lambda>d. [d]) (unicode_decimal c)"
| "scan_digits (c # c' # cs) =
     (case unicode_decimal c of
        None \<Rightarrow> None
      | Some d \<Rightarrow>
          map_option ((#) d) (if c' = 95 then scan_digits cs else scan_digits (c' # cs)))"

definition int_max_str_digits :: nat where
  "int_max_str_digits = 4300"

definition decimal_value :: "nat list \<Rightarrow> int" where
  "decimal_value ds = foldl (\<lambda>a d. 10 * a + int d) 0 ds"

definition py_int_str :: "pystr \<Rightarrow> py_error + int" where
  "py_int_str s =
     (let t = strip s;
          neg = (t \<noteq> [] \<and> hd t = 45);
          body = (if t \<noteq> [] \<and> (hd t = 43 \<or> hd t = 45) then tl t else t)
      in case scan_digits body of
           None \<Rightarrow> Inl ValueError
         | Some ds \<Rightarrow>
             if int_max_str_digits < length ds then Inl ValueError
             else Inr (if neg then - decimal_value ds else decimal_value ds))"

definition py_trunc :: "rat \<Rightarrow> int" where
  "py_trunc q = (if 0 \<le> q then \<lfloor>q\<rfloor> else - \<lfloor>- q\<rfloor>)"

fun py_int :: "json \<Rightarrow> py_error + int" where
  "py_int (JInt n) = Inr n"
| "py_int (JBool b) = Inr (if b then 1 else 0)"
| "py_int (JFloat (Finite q)) = Inr (py_trunc q)"
| "py_int (JFloat NaN) = Inl ValueError"
| "py_int (JFloat PosInf) = Inl OverflowError"
| "py_int (JFloat NegInf) = Inl OverflowError"
| "py_int (JStr s) = py_int_str s"
| "py_int JNull = Inl TypeError"
| "py_int (JArr xs) = Inl TypeError"
| "py_int (JObj d) = Inl TypeError"

section \<open>Validation\<close>

text \<open>
  \<open>HEX_COLOR_RE = re.compile(r"^#[0-9a-fA-F]{6}$")\<close>, used through \<open>match\<close>: the
  pattern is anchored at the start; \<open>$\<close> matches at the end of the string and also
  just before a newline that is the last character.
\<close>

definition is_hex :: "nat \<Rightarrow> bool" where
  "is_hex c \<longleftrightarrow> (48 \<le> c \<and> c \<le> 57) \<or> (97 \<le> c \<and> c \<le> 102) \<or> (65 \<le> c \<and> c \<le> 70)"

definition HEX_COLOR_RE_match :: "pystr \<Rightarrow> bool" where
  "HEX_COLOR_RE_match s \<longleftrightarrow>
     (case s of
        [] \<Rightarrow> False
      | c # r \<Rightarrow>
          c = 35 \<and> 6 \<le> length r \<and> list_all is_hex (take 6 r) \<and>
          (drop 6 r = [] \<or> drop 6 r = [10]))"

definition LED_MIN :: int where "LED_MIN = 0"
definition LED_MAX :: int where "LED_MAX = 8"

definition msg_color :: pystr where
  "msg_color = ustr ''color inv'' @ [225] @ ustr ''lido '' @ [8212] @ ustr '' usa formato #RRGGBB''"

definition msg_entero :: pystr where
  "msg_entero = ustr ''count debe ser un n'' @ [250] @ ustr ''mero entero''"

text \<open>The f-string of the source renders the two constants \<open>LED_MIN\<close> and \<open>LED_MAX\<close>.\<close>

definition msg_range :: pystr where
  "msg_range = ustr ''count inv'' @ [225] @ ustr ''lido '' @ [8212] @
     ustr '' debe estar entre 0 y 8''"

definition validate_state :: "json \<Rightarrow> json \<Rightarrow> bool \<times> pystr" where
  "validate_state color count =
     (case color of
        JStr s \<Rightarrow>
          if \<not> HEX_COLOR_RE_match s then (False, msg_color)
          else (case py_int count of
                  Inl e \<Rightarrow> (False, msg_entero)
                | Inr n \<Rightarrow>
                    if \<not> (LED_MIN \<le> n \<and> n \<le> LED_MAX) then (False, msg_range)
                    else (True, []))
      | _ \<Rightarrow> (False, msg_color))"

section \<open>The state file\<close>

text \<open>
  The text of a file is carried by what \<open>json.load\<close> makes of it: \<open>Doc v\<close> is a text
  that parses to \<open>v\<close>, \<open>Corrupt\<close> a text (or an unreadable file) on which reading or
  parsing raises.
\<close>

datatype content = Corrupt | Doc json

text \<open>
  \<open>json.dumps v\<close> writes an \<open>int\<close> through its decimal string, and that conversion
  raises \<open>ValueError\<close> for an integer of more than 4300 digits, wherever it stands in
  \<open>v\<close>.  Otherwise the result is a text that parses back to \<open>v\<close>.
\<close>

definition int_str_ok :: "int \<Rightarrow> bool" where
  "int_str_ok n \<longleftrightarrow> \<bar>n\<bar> < 10 ^ int_max_str_digits"

primrec dumps_ok :: "json \<Rightarrow> bool" where
  "dumps_ok JNull = True"
| "dumps_ok (JBool b) = True"
| "dumps_ok (JInt n) = int_str_ok n"
| "dumps_ok (JFloat x) = True"
| "dumps_ok (JStr s) = True"
| "dumps_ok (JArr xs) = list_all dumps_ok xs"
| "dumps_ok (JObj d) = fmpred (\<lambda>k v. v) (fmmap dumps_ok d)"

definition json_dumps :: "json \<Rightarrow> py_error + content" where
  "json_dumps v = (if dumps_ok v then Inr (Doc v) else Inl ValueError)"

fun json_load :: "content \<Rightarrow> py_error + json" where
  "json_load Corrupt = Inl ValueError"
| "json_load (Doc v) = Inr v"

text \<open>
  The data directory: \<open>STATE_FILE\<close> (absent, or its text) and the number of
  \<open>state_*.tmp\<close> files beside it.
\<close>

record fs =
  state_file :: "content option"
  tmp_files :: nat

text \<open>Which system calls of one \<open>atomic_write\<close> (or of one \<open>load_state\<close>) fail.\<close>

record faults =
  makedirs_fails :: bool
  mkstemp_fails :: bool
  write_fails :: bool
  replace_fails :: bool
  remove_fails :: bool

definition no_faults :: faults where
  "no_faults = \<lparr>makedirs_fails = False, mkstemp_fails = False, write_fails = False,
     replace_fails = False, remove_fails = False\<rparr>"

text \<open>
  The \<open>finally\<close> clause of \<open>atomic_write\<close> when the temporary file still exists:
  \<open>os.remove\<close>, whose \<open>OSError\<close> is swallowed.
\<close>

definition cleanup :: "faults \<Rightarrow> fs \<Rightarrow> fs" where
  "cleanup io f = (if remove_fails io then f else f\<lparr>tmp_files := tmp_files f - 1\<rparr>)"

definition atomic_write :: "faults \<Rightarrow> content \<Rightarrow> fs \<Rightarrow> (py_error + unit) \<times> fs" where
  "atomic_write io text f =
     (if makedirs_fails io then (Inl OSError, f)
      else if mkstemp_fails io then (Inl OSError, f)
      else
        let f1 = f\<lparr>tmp_files := tmp_files f + 1\<rparr>
        in if write_fails io then (Inl OSError, cleanup io f1)
           else if replace_fails io then (Inl OSError, cleanup io f1)
           else (Inr (), f1\<lparr>state_file := Some text, tmp_files := tmp_files f1 - 1\<rparr>))"

text \<open>
  \<open>atomic_write(STATE_FILE, json.dumps(st))\<close>, as the source has it three times: the
  argument is evaluated first, so a \<open>ValueError\<close> of \<open>json.dumps\<close> is raised before any
  file is touched.
\<close>

definition save :: "faults \<Rightarrow> pydict \<Rightarrow> fs \<Rightarrow> (py_error + unit) \<times> fs" where
  "save io st f =
     (case json_dumps (JObj st) of
        Inl e \<Rightarrow> (Inl e, f)
      | Inr text \<Rightarrow> atomic_write io text f)"

definition dict_get :: "pydict \<Rightarrow> pystr \<Rightarrow> json \<Rightarrow> json" where
  "dict_get d k dflt = (case fmlookup d k of None \<Rightarrow> dflt | Some v \<Rightarrow> v)"

definition setdefault :: "pystr \<Rightarrow> json \<Rightarrow> pydict \<Rightarrow> pydict" where
  "setdefault k v d = (if k |\<in>| fmdom d then d else fmupd k v d)"

definition default_state :: "pystr \<Rightarrow> pydict" where
  "default_state now =
     fmap_of_list
       [(ustr ''color'', JStr (ustr ''#ff0000'')), (ustr ''count'', JInt 0),
        (ustr ''rev'', JInt 1), (ustr ''updated_at'', JStr now)]"

text \<open>
  The \<open>try\<close> block of \<open>load_state\<close>: a parsed value that is no dict has no
  \<open>setdefault\<close>, which raises \<open>AttributeError\<close>.
\<close>

definition read_state :: "pystr \<Rightarrow> content \<Rightarrow> py_error + pydict" where
  "read_state now text =
     (case json_load text of
        Inl e \<Rightarrow> Inl e
      | Inr (JObj st) \<Rightarrow>
          Inr (setdefault (ustr ''updated_at'') (JStr now)
                (setdefault (ustr ''rev'') (JInt 1)
                  (setdefault (ustr ''count'') (JInt 0)
                    (setdefault (ustr ''color'') (JStr (ustr ''#ff0000'')) st))))
      | Inr _ \<Rightarrow> Inl AttributeError)"

text \<open>
  The two places where \<open>load_state\<close> builds the default record, writes it and
  returns it; neither is inside the \<open>try\<close> block, so a failing write propagates.
\<close>

definition regenerate :: "faults \<Rightarrow> pystr \<Rightarrow> fs \<Rightarrow> (py_error + pydict) \<times> fs" where
  "regenerate io now f =
     (let st = default_state now
      in case save io st f of
           (Inl e, f') \<Rightarrow> (Inl e, f')
         | (Inr u, f') \<Rightarrow> (Inr st, f'))"

definition load_state :: "faults \<Rightarrow> pystr \<Rightarrow> fs \<Rightarrow> (py_error + pydict) \<times> fs" where
  "load_state io now f =
     (if makedirs_fails io then (Inl OSError, f)
      else case state_file f of
             None \<Rightarrow> regenerate io now f
           | Some text \<Rightarrow>
               (case read_state now text of
                  Inr st \<Rightarrow> (Inr st, f)
                | Inl e \<Rightarrow> regenerate io now f))"

section \<open>Endpoints\<close>

text \<open>
  A view returns a response, or an exception escapes it (Flask then answers 500).
  \<open>get_json(silent=True)\<close> gives the parsed body, or \<open>None\<close> for a missing or
  malformed one.  \<open>jsonify\<close> is given a record that was just loaded or just saved, or
  the two-field error body.
\<close>

datatype response = Response (status: nat) (body: json)

definition get_state :: "faults \<Rightarrow> pystr \<Rightarrow> fs \<Rightarrow> (py_error + response) \<times> fs" where
  "get_state io now f =
     (case load_state io now f of
        (Inl e, f') \<Rightarrow> (Inl e, f')
      | (Inr st, f') \<Rightarrow> (Inr (Response 200 (JObj st)), f'))"

text \<open>\<open>request.get_json(silent=True) or {}\<close>.\<close>

definition get_payload :: "json option \<Rightarrow> json" where
  "get_payload b =
     (case b of None \<Rightarrow> JObj fmempty | Some v \<Rightarrow> if truthy v then v else JObj fmempty)"

text \<open>
  The body of \<open>set_state\<close> after validation: load, overwrite \<open>color\<close> and \<open>count\<close>,
  increment \<open>rev\<close>, stamp \<open>updated_at\<close>, write, answer.  The clock is read once by the
  load (\<open>now1\<close>) and once for the stamp (\<open>now2\<close>); \<open>io1\<close> and \<open>io2\<close> are the faults
  of the load and of the write.
\<close>

definition write_state ::
  "faults \<Rightarrow> faults \<Rightarrow> pystr \<Rightarrow> pystr \<Rightarrow> json \<Rightarrow> json \<Rightarrow> fs \<Rightarrow> (py_error + response) \<times> fs" where
  "write_state io1 io2 now1 now2 color count f =
     (case load_state io1 now1 f of
        (Inl e, f1) \<Rightarrow> (Inl e, f1)
      | (Inr st, f1) \<Rightarrow>
          (case py_int count of
             Inl e \<Rightarrow> (Inl e, f1)
           | Inr n \<Rightarrow>
               let st2 = fmupd (ustr ''count'') (JInt n) (fmupd (ustr ''color'') color st)
               in case py_int (dict_get st2 (ustr ''rev'') (JInt 1)) of
                    Inl e \<Rightarrow> (Inl e, f1)
                  | Inr r \<Rightarrow>
                      let st4 = fmupd (ustr ''updated_at'') (JStr now2)
                                  (fmupd (ustr ''rev'') (JInt (r + 1)) st2)
                      in case save io2 st4 f1 of
                           (Inl e, f2) \<Rightarrow> (Inl e, f2)
                         | (Inr u, f2) \<Rightarrow>
                             (Inr (Response 200
                                (JObj (fmupd (ustr ''ok'') (JBool True) fmempty ++\<^sub>f st4))), f2)))"

text \<open>
  \<open>payload.get\<close> exists on a dict only: on any other truthy body it raises
  \<open>AttributeError\<close>.  \<open>dict.get\<close> gives \<open>None\<close> for an absent key.
\<close>

definition set_state ::
  "faults \<Rightarrow> faults \<Rightarrow> pystr \<Rightarrow> pystr \<Rightarrow> json option \<Rightarrow> fs \<Rightarrow> (py_error + response) \<times> fs" where
  "set_state io1 io2 now1 now2 b f =
     (case get_payload b of
        JObj payload \<Rightarrow>
          let color = dict_get payload (ustr ''color'') JNull;
              count = dict_get payload (ustr ''count'') JNull
          in (case validate_state color count of
                (False, msg) \<Rightarrow>
                  (Inr (Response 400
                     (JObj (fmap_of_list
                        [(ustr ''ok'', JBool False), (ustr ''error'', JStr msg)]))), f)
              | (True, msg) \<Rightarrow> write_state io1 io2 now1 now2 color count f)
      | _ \<Rightarrow> (Inl AttributeError, f))"

definition health :: "pystr \<Rightarrow> response" where
  "health now = Response 200 (JObj (fmap_of_list
     [(ustr ''status'', JStr (ustr ''ok'')), (ustr ''time'', JStr now)]))"

text \<open>
  The three routes.  A request carries what the environment does while it is served:
  the faults of its system calls and the readings of the clock.
\<close>

datatype request =
    GetState faults pystr
  | PostState faults faults pystr pystr "json option"
  | GetHealth pystr

fun dispatch :: "request \<Rightarrow> fs \<Rightarrow> (py_error + response) \<times> fs" where
  "dispatch (GetState io now) f = get_state io now f"
| "dispatch (PostState io1 io2 now1 now2 b) f = set_state io1 io2 now1 now2 b f"
| "dispatch (GetHealth now) f = (Inr (health now), f)"

fun serve :: "request list \<Rightarrow> fs \<Rightarrow> fs" where
  "serve [] f = f"
| "serve (r # rs) f = serve rs (snd (dispatch r f))"

text \<open>
  The \<open>rev\<close> of the record that the state file holds, as \<open>st.get("rev", 1)\<close> reads it
  after a load: none when the file is absent or holds no JSON object.
\<close>

definition stored_rev :: "fs \<Rightarrow> json option" where
  "stored_rev f =
     (case state_file f of
        Some (Doc (JObj d)) \<Rightarrow> Some (dict_get d (ustr ''rev'') (JInt 1))
      | _ \<Rightarrow> None)"

section \<open>Basic facts\<close>

lemma ustr_eq_iff [simp]: "ustr a = ustr b \<longleftrightarrow> a = b"
  unfolding ustr_def by (metis char_of_char list.inj_map_strong)

lemma floor_rat_numeral [simp]:
  "\<lfloor>numeral a / numeral b :: rat\<rfloor> = numeral a div numeral b"
  using floor_divide_of_int_eq[of "numeral a" "numeral b", where ?'a=rat] by simp

lemma truthy_obj [simp]: "fmlookup d k = Some v \<Longrightarrow> truthy (JObj d)"
  by (auto dest!: fmdomI)

lemmas validate_defs =
  validate_state_def HEX_COLOR_RE_match_def is_hex_def LED_MIN_def LED_MAX_def

section \<open>Validation of the color\<close>

text \<open>
  What the pattern matches: a \<open>#\<close> and six hexadecimal digits, alone or followed by one
  newline.
\<close>

lemma HEX_COLOR_RE_match_iff:
  "HEX_COLOR_RE_match s \<longleftrightarrow>
     (\<exists>h. length h = 6 \<and> list_all is_hex h \<and> (s = 35 # h \<or> s = 35 # h @ [10]))"
proof
  assume m: "HEX_COLOR_RE_match s"
  then obtain r where s: "s = 35 # r" and l: "6 \<le> length r"
    and h: "list_all is_hex (take 6 r)" and d: "drop 6 r = [] \<or> drop 6 r = [10]"
    by (auto simp: HEX_COLOR_RE_match_def split: list.splits)
  from d have "r = take 6 r \<or> r = take 6 r @ [10]"
  proof
    assume "drop 6 r = []"
    then have "take 6 r @ drop 6 r = take 6 r" by simp
    then have "r = take 6 r" by (simp only: append_take_drop_id)
    then show ?thesis by (rule disjI1)
  next
    assume "drop 6 r = [10]"
    then have "take 6 r @ drop 6 r = take 6 r @ [10]" by simp
    then have "r = take 6 r @ [10]" by (simp only: append_take_drop_id)
    then show ?thesis by (rule disjI2)
  qed
  with s l h show "\<exists>h. length h = 6 \<and> list_all is_hex h \<and> (s = 35 # h \<or> s = 35 # h @ [10])"
    by (intro exI[of _ "take 6 r"]) auto
next
  assume "\<exists>h. length h = 6 \<and> list_all is_hex h \<and> (s = 35 # h \<or> s = 35 # h @ [10])"
  then show "HEX_COLOR_RE_match s"
    by (auto simp: HEX_COLOR_RE_match_def)
qed

text \<open>
  C8 (as the code has it).  The claim is that every string other than a \<open>#\<close> and six
  hexadecimal digits fails validation, one with a trailing newline in particular.
  The \<open>$\<close> of the pattern lets one trailing newline through: the seven characters
  \<open>#ff0000\<close> followed by a newline pass \<open>validate_state\<close>.
\<close>

theorem validate_state_trailing_newline:
  "validate_state (JStr (ustr ''#ff0000'' @ [10])) (JInt 0) = (True, [])"
  by (simp add: validate_defs ustr_def)

section \<open>Rejected writes\<close>

lemma set_state_invalid:
  assumes "get_payload b = JObj p"
    and "validate_state (dict_get p (ustr ''color'') JNull)
           (dict_get p (ustr ''count'') JNull) = (False, msg)"
  shows "set_state io1 io2 now1 now2 b f =
    (Inr (Response 400
       (JObj (fmap_of_list [(ustr ''ok'', JBool False), (ustr ''error'', JStr msg)]))), f)"
  using assms by (simp add: set_state_def)

lemma validate_color_fails:
  assumes "\<not> (\<exists>s. color = JStr s \<and> HEX_COLOR_RE_match s)"
  shows "validate_state color count = (False, msg_color)"
  using assms by (cases color) (auto simp: validate_state_def)

lemma set_state_empty_body:
  assumes "b = None \<or> (\<exists>v. b = Some v \<and> \<not> truthy v)"
  shows "set_state io1 io2 now1 now2 b f =
    (Inr (Response 400
       (JObj (fmap_of_list [(ustr ''ok'', JBool False), (ustr ''error'', JStr msg_color)]))), f)"
proof -
  from assms have p: "get_payload b = JObj fmempty"
    by (auto simp: get_payload_def)
  have "validate_state (dict_get fmempty (ustr ''color'') JNull)
      (dict_get fmempty (ustr ''count'') JNull) = (False, msg_color)"
    by (rule validate_color_fails) (simp add: dict_get_def)
  from set_state_invalid[OF p this] show ?thesis .
qed

text \<open>
  C2 (as the code has it).  The claim is that a body that is no JSON object is treated
  as empty input and answered with 400 and a reason.  A body that is a non-empty JSON
  array survives \<open>or {}\<close> and has no \<open>get\<close>: \<open>AttributeError\<close> escapes the view, no reason
  is reported; the files are not touched.
\<close>

theorem set_state_array_body:
  "set_state io1 io2 now1 now2 (Some (JArr [JInt 1])) f = (Inl AttributeError, f)"
  by (simp add: set_state_def get_payload_def)

text \<open>
  C10 (amended).  A POST whose color is not a string that the pattern matches is
  answered with 400 and the body \<open>{"ok": false, "error": m}\<close>, where \<open>m\<close> is the
  Spanish message of the source, \<open>color inv\<close>, U+00E1, \<open>lido\<close>, U+2014,
  \<open>usa formato #RRGGBB\<close>; nothing is written.
\<close>

theorem set_state_invalid_color:
  assumes "get_payload b = JObj p"
    and "\<not> (\<exists>s. dict_get p (ustr ''color'') JNull = JStr s \<and> HEX_COLOR_RE_match s)"
  shows "set_state io1 io2 now1 now2 b f =
    (Inr (Response 400 (JObj (fmap_of_list
       [(ustr ''ok'', JBool False),
        (ustr ''error'', JStr (ustr ''color inv'' @ [225] @ ustr ''lido '' @ [8212] @
                               ustr '' usa formato #RRGGBB''))]))), f)"
  using set_state_invalid[OF assms(1) validate_color_fails[OF assms(2)]]
  by (simp add: msg_color_def)

theorem set_state_invalid_color_witness:
  "set_state no_faults no_faults (ustr ''t1'') (ustr ''t2'')
     (Some (JObj (fmap_of_list
        [(ustr ''color'', JStr (ustr ''blue'')), (ustr ''count'', JInt 3)])))
     \<lparr>state_file = None, tmp_files = 0\<rparr> =
   (Inr (Response 400 (JObj (fmap_of_list
       [(ustr ''ok'', JBool False),
        (ustr ''error'', JStr (ustr ''color inv'' @ [225] @ ustr ''lido '' @ [8212] @
                               ustr '' usa formato #RRGGBB''))]))),
    \<lparr>state_file = None, tmp_files = 0\<rparr>)"
proof -
  let ?p = "fmap_of_list [(ustr ''color'', JStr (ustr ''blue'')), (ustr ''count'', JInt 3)]"
  have 1: "get_payload (Some (JObj ?p)) = JObj ?p"
    by (simp add: get_payload_def)
  have 2: "\<not> (\<exists>s. dict_get ?p (ustr ''color'') JNull = JStr s \<and> HEX_COLOR_RE_match s)"
    by (simp add: dict_get_def HEX_COLOR_RE_match_def ustr_def)
  show ?thesis
    by (rule set_state_invalid_color[OF 1 2])
qed

text \<open>
  The body of the claim, with the English message, is not what the POST of
  \<open>{"color": "blue", "count": 3}\<close> returns.
\<close>

theorem english_message_counterexample:
  "set_state no_faults no_faults (ustr ''t1'') (ustr ''t2'')
     (Some (JObj (fmap_of_list
        [(ustr ''color'', JStr (ustr ''blue'')), (ustr ''count'', JInt 3)])))
     \<lparr>state_file = None, tmp_files = 0\<rparr> \<noteq>
   (Inr (Response 400 (JObj (fmap_of_list
       [(ustr ''ok'', JBool False),
        (ustr ''error'',
         JStr (ustr ''invalid color '' @ [8212] @ ustr '' use #RRGGBB format''))]))),
    \<lparr>state_file = None, tmp_files = 0\<rparr>)"
proof
  let ?k = "ustr ''error''"
  let ?m = "fmap_of_list [(ustr ''ok'', JBool False),
        (ustr ''error'',
         JStr (ustr ''invalid color '' @ [8212] @ ustr '' use #RRGGBB format''))]"
  let ?b = "Some (JObj (fmap_of_list
        [(ustr ''color'', JStr (ustr ''blue'')), (ustr ''count'', JInt 3)]))"
  let ?f = "\<lparr>state_file = None, tmp_files = 0\<rparr>"
  assume "set_state no_faults no_faults (ustr ''t1'') (ustr ''t2'') ?b ?f =
      (Inr (Response 400 (JObj ?m)), ?f)"
  then have "fmap_of_list [(ustr ''ok'', JBool False), (ustr ''error'', JStr msg_color)] = ?m"
    by (simp add: set_state_def get_payload_def dict_get_def validate_state_def
        HEX_COLOR_RE_match_def ustr_def)
  then have "fmlookup (fmap_of_list
        [(ustr ''ok'', JBool False), (ustr ''error'', JStr msg_color)]) ?k = fmlookup ?m ?k"
    by (rule arg_cong)
  then show False
    by (simp add: msg_color_def ustr_def)
qed

section \<open>Validation of the count\<close>

lemma unicode_decimal_ascii:
  assumes "48 \<le> c" and "c \<le> 57"
  shows "unicode_decimal c = Some (c - 48)"
  using assms by (simp add: unicode_decimal_def decimal_zeros_def)

lemma scan_digits_ascii:
  assumes "t \<noteq> []" and "\<forall>c\<in>set t. 48 \<le> c \<and> c \<le> 57"
  shows "scan_digits t = Some (map (\<lambda>c. c - 48) t)"
  using assms
proof (induction t rule: scan_digits.induct)
  case 1
  then show ?case by simp
next
  case (2 c)
  then show ?case by (simp add: unicode_decimal_ascii)
next
  case (3 c c' cs)
  then have "c' \<noteq> 95" by auto
  with 3 show ?case by (simp add: unicode_decimal_ascii)
qed

lemma digit_not_space:
  assumes "48 \<le> c" and "c \<le> 57"
  shows "\<not> is_space c"
  using assms by (simp add: is_space_def)

lemma strip_ascii_digits:
  assumes "t \<noteq> []" and "\<forall>c\<in>set t. 48 \<le> c \<and> c \<le> 57"
  shows "strip t = t"
proof -
  from assms have h: "\<not> is_space (hd t)" and l: "\<not> is_space (last t)"
    by (simp_all add: digit_not_space)
  from assms(1) h have 1: "dropWhile is_space t = t"
    by (cases t) simp_all
  from assms(1) l have "\<not> is_space (hd (rev t))"
    by (simp add: hd_rev)
  with assms(1) have 2: "dropWhile is_space (rev t) = rev t"
    by (cases "rev t") simp_all
  show ?thesis by (simp add: strip_def 1 2)
qed

lemma decimal_value_nonneg: "0 \<le> decimal_value ds"
proof -
  have "0 \<le> a \<Longrightarrow> 0 \<le> foldl (\<lambda>a d. 10 * a + int d) a ds" for a
    by (induction ds arbitrary: a) simp_all
  then show ?thesis by (simp add: decimal_value_def)
qed

lemma py_int_str_ascii_digits:
  assumes "t \<noteq> []" and "\<forall>c\<in>set t. 48 \<le> c \<and> c \<le> 57" and "length t \<le> 4300"
  shows "py_int_str t = Inr (decimal_value (map (\<lambda>c. c - 48) t))"
proof -
  from assms(1,2) have "48 \<le> hd t" by simp
  then have "hd t \<noteq> 43" "hd t \<noteq> 45" by simp_all
  with assms show ?thesis
    by (simp add: py_int_str_def strip_ascii_digits scan_digits_ascii int_max_str_digits_def)
qed

text \<open>
  C7 (amended).  With a color that matches, \<open>validate_state\<close> accepts a count exactly when
  \<open>int()\<close> of it succeeds with a value from 0 to 8: an integer exactly when it lies in
  that range, both booleans, a finite float exactly when it lies strictly between -1
  and 9 (it is truncated toward zero, integral or not), a string of at most 4300 ASCII
  digits exactly when its decimal value is at most 8; \<open>nan\<close>, the infinities,
  \<open>None\<close>, lists and dicts are refused.
\<close>

theorem validate_state_count:
  assumes "HEX_COLOR_RE_match s"
  shows "(fst (validate_state (JStr s) count) \<longleftrightarrow>
            (\<exists>n. py_int count = Inr n \<and> 0 \<le> n \<and> n \<le> 8)) \<and>
         (fst (validate_state (JStr s) (JInt n)) \<longleftrightarrow> 0 \<le> n \<and> n \<le> 8) \<and>
         fst (validate_state (JStr s) (JBool b)) \<and>
         (fst (validate_state (JStr s) (JFloat (Finite q))) \<longleftrightarrow> - 1 < q \<and> q < 9) \<and>
         (t \<noteq> [] \<and> (\<forall>c\<in>set t. 48 \<le> c \<and> c \<le> 57) \<and> length t \<le> 4300 \<longrightarrow>
            (fst (validate_state (JStr s) (JStr t)) \<longleftrightarrow>
               decimal_value (map (\<lambda>c. c - 48) t) \<le> 8)) \<and>
         \<not> fst (validate_state (JStr s) (JFloat NaN)) \<and>
         \<not> fst (validate_state (JStr s) (JFloat PosInf)) \<and>
         \<not> fst (validate_state (JStr s) (JFloat NegInf)) \<and>
         \<not> fst (validate_state (JStr s) JNull) \<and>
         \<not> fst (validate_state (JStr s) (JArr xs)) \<and>
         \<not> fst (validate_state (JStr s) (JObj d))"
proof -
  have trunc: "0 \<le> py_trunc q \<and> py_trunc q \<le> 8 \<longleftrightarrow> - 1 < q \<and> q < 9"
    unfolding py_trunc_def by (auto; linarith)
  have gen: "fst (validate_state (JStr s) c) \<longleftrightarrow>
      (\<exists>n. py_int c = Inr n \<and> 0 \<le> n \<and> n \<le> 8)" for c
    using assms by (auto simp: validate_state_def LED_MIN_def LED_MAX_def split: sum.splits)
  have str: "fst (validate_state (JStr s) (JStr t)) \<longleftrightarrow>
      decimal_value (map (\<lambda>c. c - 48) t) \<le> 8"
    if "t \<noteq> [] \<and> (\<forall>c\<in>set t. 48 \<le> c \<and> c \<le> 57) \<and> length t \<le> 4300"
    using that by (simp add: gen py_int_str_ascii_digits decimal_value_nonneg)
  show ?thesis
    using trunc str by (simp add: gen)
qed

theorem validate_state_count_witness:
  "HEX_COLOR_RE_match (ustr ''#000000'') \<and>
   fst (validate_state (JStr (ustr ''#000000'')) (JFloat (Finite (7 / 2)))) \<and>
   fst (validate_state (JStr (ustr ''#000000'')) (JBool True)) \<and>
   fst (validate_state (JStr (ustr ''#000000'')) (JStr (ustr ''08''))) \<and>
   \<not> fst (validate_state (JStr (ustr ''#000000'')) (JInt 9)) \<and>
   \<not> fst (validate_state (JStr (ustr ''#000000'')) JNull)"
proof -
  have h: "HEX_COLOR_RE_match (ustr ''#000000'')"
    by (simp add: HEX_COLOR_RE_match_def is_hex_def ustr_def)
  show ?thesis
    using h validate_state_count[OF h, of JNull 9 True "7 / 2" "ustr ''08''" "[]" fmempty]
    by (simp add: ustr_def decimal_value_def)
qed

text \<open>
  The float 3.5 is not integral (truncation changes it) and passes validation, which
  the claim says fails.
\<close>

theorem fractional_count_counterexample:
  "validate_state (JStr (ustr ''#000000'')) (JFloat (Finite (7 / 2))) = (True, []) \<and>
   rat_of_int (py_trunc (7 / 2)) \<noteq> 7 / 2"
  by (simp add: validate_defs ustr_def py_trunc_def)

section \<open>Atomic write\<close>

lemmas fs_defs = atomic_write_def cleanup_def

lemma atomic_write_ok:
  assumes "\<not> makedirs_fails io" "\<not> mkstemp_fails io" "\<not> write_fails io" "\<not> replace_fails io"
  shows "atomic_write io text f = (Inr (), f\<lparr>state_file := Some text\<rparr>)"
  using assms by (simp add: fs_defs)

lemma atomic_write_Inr:
  assumes "atomic_write io text f = (Inr u, f')"
  shows "f' = f\<lparr>state_file := Some text\<rparr>"
  using assms by (auto simp: fs_defs Let_def split: if_splits)

lemma atomic_write_Inl:
  assumes "atomic_write io text f = (Inl e, f')"
  shows "e = OSError \<and> state_file f' = state_file f \<and>
    (makedirs_fails io \<or> mkstemp_fails io \<or> write_fails io \<or> replace_fails io)"
  using assms by (auto simp: fs_defs Let_def split: if_splits)

lemma dumps_ok_obj:
  "dumps_ok (JObj d) \<longleftrightarrow> (\<forall>k v. fmlookup d k = Some v \<longrightarrow> dumps_ok v)"
  by (auto simp: fmpred_iff)

declare dumps_ok.simps(7) [simp del]

lemma int_str_ok_small:
  assumes "\<bar>n\<bar> < 10"
  shows "int_str_ok n"
proof -
  have "(10::int) ^ 1 \<le> 10 ^ int_max_str_digits"
    by (rule power_increasing) (simp_all add: int_max_str_digits_def)
  with assms show ?thesis
    unfolding int_str_ok_def by simp
qed

lemma save_ok:
  assumes "dumps_ok (JObj st)"
    and "\<not> makedirs_fails io" "\<not> mkstemp_fails io" "\<not> write_fails io" "\<not> replace_fails io"
  shows "save io st f = (Inr (), f\<lparr>state_file := Some (Doc (JObj st))\<rparr>)"
  using assms(1) by (simp add: save_def json_dumps_def atomic_write_ok[OF assms(2-5)])

lemma save_Inr:
  assumes "save io st f = (Inr u, f')"
  shows "f' = f\<lparr>state_file := Some (Doc (JObj st))\<rparr> \<and> dumps_ok (JObj st)"
  using assms
  by (auto simp: save_def json_dumps_def split: if_splits dest: atomic_write_Inr)

lemma save_Inl:
  assumes "save io st f = (Inl e, f')"
  shows "state_file f' = state_file f \<and>
    (dumps_ok (JObj st) \<longrightarrow> e = OSError \<and>
      (makedirs_fails io \<or> mkstemp_fails io \<or> write_fails io \<or> replace_fails io))"
  using assms
  by (auto simp: save_def json_dumps_def split: if_splits dest: atomic_write_Inl)

text \<open>
  C6 (amended).  When the write or the rename of \<open>atomic_write\<close> fails, \<open>OSError\<close> reaches
  the caller and the state file is as it was; the temporary file is removed, unless
  its removal fails as well: that error is swallowed and the file stays.
\<close>

theorem atomic_write_failure:
  assumes "\<not> makedirs_fails io" and "\<not> mkstemp_fails io"
    and "write_fails io \<or> replace_fails io"
  shows "fst (atomic_write io text f) = Inl OSError \<and>
         state_file (snd (atomic_write io text f)) = state_file f \<and>
         tmp_files (snd (atomic_write io text f)) =
           (if remove_fails io then tmp_files f + 1 else tmp_files f)"
  using assms by (auto simp: fs_defs Let_def)

theorem atomic_write_failure_witness:
  "fst (atomic_write (no_faults\<lparr>replace_fails := True\<rparr>)
        (Doc (JObj (default_state (ustr ''t''))))
        \<lparr>state_file = Some Corrupt, tmp_files = 0\<rparr>) = Inl OSError \<and>
   state_file (snd (atomic_write (no_faults\<lparr>replace_fails := True\<rparr>)
        (Doc (JObj (default_state (ustr ''t''))))
        \<lparr>state_file = Some Corrupt, tmp_files = 0\<rparr>)) = Some Corrupt \<and>
   tmp_files (snd (atomic_write (no_faults\<lparr>replace_fails := True\<rparr>)
        (Doc (JObj (default_state (ustr ''t''))))
        \<lparr>state_file = Some Corrupt, tmp_files = 0\<rparr>)) = 0"
  using atomic_write_failure[of "no_faults\<lparr>replace_fails := True\<rparr>"
      "Doc (JObj (default_state (ustr ''t'')))"
      "\<lparr>state_file = Some Corrupt, tmp_files = 0\<rparr>"]
  by (simp add: no_faults_def)

text \<open>
  The write fails and so does the removal: the temporary file is still there.
\<close>

theorem leftover_tmp_counterexample:
  "fst (atomic_write (no_faults\<lparr>write_fails := True, remove_fails := True\<rparr>)
      (Doc (JObj (default_state (ustr ''t''))))
      \<lparr>state_file = Some Corrupt, tmp_files = 0\<rparr>) = Inl OSError \<and>
   tmp_files (snd (atomic_write (no_faults\<lparr>write_fails := True, remove_fails := True\<rparr>)
      (Doc (JObj (default_state (ustr ''t''))))
      \<lparr>state_file = Some Corrupt, tmp_files = 0\<rparr>)) \<noteq>
   tmp_files \<lparr>state_file = Some Corrupt, tmp_files = 0\<rparr>"
  by (simp add: fs_defs no_faults_def)

section \<open>Load\<close>

lemma fmlookup_setdefault:
  "fmlookup (setdefault k v d) x =
     (if x = k \<and> fmlookup d k = None then Some v else fmlookup d x)"
  by (auto simp: setdefault_def fmdom_notD dest: fmdomI)

lemma fmlookup_default_state:
  "fmlookup (default_state now) x =
     (if x = ustr ''color'' then Some (JStr (ustr ''#ff0000''))
      else if x = ustr ''count'' then Some (JInt 0)
      else if x = ustr ''rev'' then Some (JInt 1)
      else if x = ustr ''updated_at'' then Some (JStr now)
      else None)"
  by (simp add: default_state_def)

lemma read_state_obj:
  "read_state now (Doc (JObj d)) = Inr (default_state now ++\<^sub>f d)"
proof -
  have "setdefault (ustr ''updated_at'') (JStr now)
          (setdefault (ustr ''rev'') (JInt 1)
            (setdefault (ustr ''count'') (JInt 0)
              (setdefault (ustr ''color'') (JStr (ustr ''#ff0000'')) d))) =
        default_state now ++\<^sub>f d"
    by (rule fmap_ext)
      (auto simp: fmlookup_setdefault fmlookup_default_state fmdom_notD dest: fmdomI
        split: if_splits)
  then show ?thesis
    by (simp add: read_state_def)
qed

lemma dumps_ok_default: "dumps_ok (JObj (default_state now))"
  by (auto simp: dumps_ok_obj fmlookup_default_state int_str_ok_small split: if_splits)

lemma regenerate_ok:
  assumes "\<not> makedirs_fails io" "\<not> mkstemp_fails io" "\<not> write_fails io" "\<not> replace_fails io"
  shows "regenerate io now f =
    (Inr (default_state now), f\<lparr>state_file := Some (Doc (JObj (default_state now)))\<rparr>)"
  by (simp add: regenerate_def save_ok[OF dumps_ok_default assms] Let_def)

lemma regenerate_Inr:
  assumes "regenerate io now f = (Inr st, f')"
  shows "st = default_state now \<and> f' = f\<lparr>state_file := Some (Doc (JObj (default_state now)))\<rparr>"
  using assms
  by (auto simp: regenerate_def Let_def split: prod.splits sum.splits dest: save_Inr)

lemma regenerate_Inl:
  assumes "regenerate io now f = (Inl e, f')"
  shows "e = OSError \<and> state_file f' = state_file f \<and>
    (makedirs_fails io \<or> mkstemp_fails io \<or> write_fails io \<or> replace_fails io)"
  using assms
  by (auto simp: regenerate_def Let_def dumps_ok_default split: prod.splits sum.splits
      dest: save_Inl)

lemma load_state_obj:
  assumes "state_file f = Some (Doc (JObj d))" and "\<not> makedirs_fails io"
  shows "load_state io now f = (Inr (default_state now ++\<^sub>f d), f)"
  using assms by (simp add: load_state_def read_state_obj)

lemma load_state_not_obj:
  assumes "state_file f = None \<or> state_file f = Some Corrupt \<or>
       (\<exists>v. state_file f = Some (Doc v) \<and> (\<forall>d. v \<noteq> JObj d))"
    and "\<not> makedirs_fails io"
  shows "load_state io now f = regenerate io now f"
  using assms by (auto simp: load_state_def read_state_def split: json.splits)

lemma load_state_Inl:
  assumes "load_state io now f = (Inl e, f')"
  shows "e = OSError \<and> state_file f' = state_file f \<and>
    (makedirs_fails io \<or> mkstemp_fails io \<or> write_fails io \<or> replace_fails io)"
proof (cases "makedirs_fails io")
  case True
  with assms show ?thesis by (auto simp: load_state_def)
next
  case False
  with assms have "regenerate io now f = (Inl e, f')"
    by (auto simp: load_state_def split: option.splits sum.splits)
  then show ?thesis by (rule regenerate_Inl)
qed

text \<open>
  C9.  When the state file holds a JSON object, \<open>load_state\<close> returns that object with
  each absent field set to its default (\<open>updated_at\<close> to the current time only when
  absent, \<open>rev\<close> to 1 only when absent, never incremented) and writes nothing: the
  files are as they were.
\<close>

theorem load_state_backfill:
  assumes "state_file f = Some (Doc (JObj d))" and "\<not> makedirs_fails io"
  shows "load_state io now f = (Inr (default_state now ++\<^sub>f d), f) \<and>
    fmlookup (default_state now ++\<^sub>f d) (ustr ''rev'') =
      (case fmlookup d (ustr ''rev'') of None \<Rightarrow> Some (JInt 1) | Some r \<Rightarrow> Some r) \<and>
    fmlookup (default_state now ++\<^sub>f d) (ustr ''updated_at'') =
      (case fmlookup d (ustr ''updated_at'') of None \<Rightarrow> Some (JStr now) | Some t \<Rightarrow> Some t) \<and>
    fmlookup (default_state now ++\<^sub>f d) (ustr ''color'') =
      (case fmlookup d (ustr ''color'') of
         None \<Rightarrow> Some (JStr (ustr ''#ff0000'')) | Some c \<Rightarrow> Some c) \<and>
    fmlookup (default_state now ++\<^sub>f d) (ustr ''count'') =
      (case fmlookup d (ustr ''count'') of None \<Rightarrow> Some (JInt 0) | Some c \<Rightarrow> Some c)"
  using load_state_obj[OF assms]
  by (auto simp: fmlookup_default_state fmdom_notD dest: fmdomI split: option.splits)

theorem load_state_backfill_witness:
  "load_state no_faults (ustr ''t2'')
     \<lparr>state_file = Some (Doc (JObj (fmap_of_list
        [(ustr ''color'', JStr (ustr ''#00ff00'')), (ustr ''rev'', JInt 7)]))),
      tmp_files = 0\<rparr> =
   (Inr (default_state (ustr ''t2'') ++\<^sub>f fmap_of_list
        [(ustr ''color'', JStr (ustr ''#00ff00'')), (ustr ''rev'', JInt 7)]),
    \<lparr>state_file = Some (Doc (JObj (fmap_of_list
        [(ustr ''color'', JStr (ustr ''#00ff00'')), (ustr ''rev'', JInt 7)]))),
      tmp_files = 0\<rparr>) \<and>
   fmlookup (default_state (ustr ''t2'') ++\<^sub>f fmap_of_list
        [(ustr ''color'', JStr (ustr ''#00ff00'')), (ustr ''rev'', JInt 7)]) (ustr ''rev'') =
     Some (JInt 7) \<and>
   fmlookup (default_state (ustr ''t2'') ++\<^sub>f fmap_of_list
        [(ustr ''color'', JStr (ustr ''#00ff00'')), (ustr ''rev'', JInt 7)])
        (ustr ''updated_at'') = Some (JStr (ustr ''t2''))"
  using load_state_backfill[of
      "\<lparr>state_file = Some (Doc (JObj (fmap_of_list
        [(ustr ''color'', JStr (ustr ''#00ff00'')), (ustr ''rev'', JInt 7)]))), tmp_files = 0\<rparr>"
      "fmap_of_list [(ustr ''color'', JStr (ustr ''#00ff00'')), (ustr ''rev'', JInt 7)]"
      no_faults "ustr ''t2''"]
  by (simp add: no_faults_def)

text \<open>
  C4 (amended).  \<open>load_state\<close> raises nothing on account of what the state file holds:
  the only error that reaches the caller is the \<open>OSError\<close> of a system call that failed
  (creating the directory, or writing the regenerated record), and the state file is
  then as it was.  When those calls succeed and the file is absent, unreadable or
  holds no JSON object, \<open>load_state\<close> writes and returns the default record: color
  \<open>#ff0000\<close>, count 0, rev 1 and the current time.
\<close>

theorem load_state_regenerates:
  "(\<forall>e f'. load_state io now f = (Inl e, f') \<longrightarrow>
      e = OSError \<and> state_file f' = state_file f \<and>
      (makedirs_fails io \<or> mkstemp_fails io \<or> write_fails io \<or> replace_fails io)) \<and>
   (\<not> makedirs_fails io \<and> \<not> mkstemp_fails io \<and> \<not> write_fails io \<and> \<not> replace_fails io \<and>
    (state_file f = None \<or> state_file f = Some Corrupt \<or>
      (\<exists>v. state_file f = Some (Doc v) \<and> (\<forall>d. v \<noteq> JObj d))) \<longrightarrow>
    load_state io now f =
      (Inr (default_state now), f\<lparr>state_file := Some (Doc (JObj (default_state now)))\<rparr>)) \<and>
   default_state now = fmap_of_list
     [(ustr ''color'', JStr (ustr ''#ff0000'')), (ustr ''count'', JInt 0),
      (ustr ''rev'', JInt 1), (ustr ''updated_at'', JStr now)]"
proof (intro conjI allI impI)
  fix e f'
  assume "load_state io now f = (Inl e, f')"
  from load_state_Inl[OF this]
  show "e = OSError" and "state_file f' = state_file f"
    and "makedirs_fails io \<or> mkstemp_fails io \<or> write_fails io \<or> replace_fails io"
    by simp_all
next
  assume a: "\<not> makedirs_fails io \<and> \<not> mkstemp_fails io \<and> \<not> write_fails io \<and>
    \<not> replace_fails io \<and>
    (state_file f = None \<or> state_file f = Some Corrupt \<or>
      (\<exists>v. state_file f = Some (Doc v) \<and> (\<forall>d. v \<noteq> JObj d)))"
  then have "load_state io now f = regenerate io now f"
    by (intro load_state_not_obj) simp_all
  with a show "load_state io now f =
      (Inr (default_state now), f\<lparr>state_file := Some (Doc (JObj (default_state now)))\<rparr>)"
    by (simp add: regenerate_ok)
next
  show "default_state now = fmap_of_list
     [(ustr ''color'', JStr (ustr ''#ff0000'')), (ustr ''count'', JInt 0),
      (ustr ''rev'', JInt 1), (ustr ''updated_at'', JStr now)]"
    by (simp add: default_state_def)
qed

theorem load_state_regenerates_witness:
  "load_state no_faults (ustr ''t1'') \<lparr>state_file = Some (Doc (JArr [JInt 1])), tmp_files = 0\<rparr> =
     (Inr (default_state (ustr ''t1'')),
      \<lparr>state_file = Some (Doc (JObj (default_state (ustr ''t1'')))), tmp_files = 0\<rparr>) \<and>
   load_state no_faults (ustr ''t1'') \<lparr>state_file = Some Corrupt, tmp_files = 0\<rparr> =
     (Inr (default_state (ustr ''t1'')),
      \<lparr>state_file = Some (Doc (JObj (default_state (ustr ''t1'')))), tmp_files = 0\<rparr>)"
  using load_state_regenerates[of no_faults "ustr ''t1''"
      "\<lparr>state_file = Some (Doc (JArr [JInt 1])), tmp_files = 0\<rparr>"]
    load_state_regenerates[of no_faults "ustr ''t1''"
      "\<lparr>state_file = Some Corrupt, tmp_files = 0\<rparr>"]
  by (simp add: no_faults_def)

text \<open>
  The state file is absent and the write of the default record fails: \<open>load_state\<close>
  raises \<open>OSError\<close> to its caller.
\<close>

theorem load_state_raises_counterexample:
  "load_state (no_faults\<lparr>write_fails := True\<rparr>) (ustr ''t1'')
     \<lparr>state_file = None, tmp_files = 0\<rparr> =
   (Inl OSError, \<lparr>state_file = None, tmp_files = 0\<rparr>)"
  by (simp add: load_state_def regenerate_def save_def json_dumps_def dumps_ok_default
      fs_defs no_faults_def)

text \<open>
  C5.  A record that has all four fields, once saved (\<open>json.dumps\<close> and the atomic
  write both succeeding), is what the next load returns:
  no field is filled in, and the load writes nothing.
\<close>

theorem save_load_roundtrip:
  assumes "save io d f = (Inr (), f')"
    and "ustr ''color'' |\<in>| fmdom d" and "ustr ''count'' |\<in>| fmdom d"
    and "ustr ''rev'' |\<in>| fmdom d" and "ustr ''updated_at'' |\<in>| fmdom d"
    and "\<not> makedirs_fails io'"
  shows "load_state io' now f' = (Inr d, f')"
proof -
  have f': "state_file f' = Some (Doc (JObj d))"
    using save_Inr[OF assms(1)] by simp
  have "default_state now ++\<^sub>f d = d"
    using assms(2-5)
    by (intro fmap_ext) (auto simp: fmlookup_default_state fmdom_notD split: if_splits)
  then show ?thesis
    using load_state_obj[OF f' assms(6)] by simp
qed

theorem save_load_roundtrip_witness:
  "load_state no_faults (ustr ''t9'')
     \<lparr>state_file = Some (Doc (JObj (fmap_of_list
        [(ustr ''color'', JStr (ustr ''#00ff00'')), (ustr ''count'', JInt 3),
         (ustr ''rev'', JInt 2), (ustr ''updated_at'', JStr (ustr ''t1''))]))),
      tmp_files = 0\<rparr> =
   (Inr (fmap_of_list
        [(ustr ''color'', JStr (ustr ''#00ff00'')), (ustr ''count'', JInt 3),
         (ustr ''rev'', JInt 2), (ustr ''updated_at'', JStr (ustr ''t1''))]),
    \<lparr>state_file = Some (Doc (JObj (fmap_of_list
        [(ustr ''color'', JStr (ustr ''#00ff00'')), (ustr ''count'', JInt 3),
         (ustr ''rev'', JInt 2), (ustr ''updated_at'', JStr (ustr ''t1''))]))),
      tmp_files = 0\<rparr>)"
proof -
  let ?d = "fmap_of_list
        [(ustr ''color'', JStr (ustr ''#00ff00'')), (ustr ''count'', JInt 3),
         (ustr ''rev'', JInt 2), (ustr ''updated_at'', JStr (ustr ''t1''))]"
  have "dumps_ok (JObj ?d)"
    by (auto simp: dumps_ok_obj int_str_ok_small split: if_splits)
  then have w: "save no_faults ?d \<lparr>state_file = None, tmp_files = 0\<rparr> =
      (Inr (), \<lparr>state_file = Some (Doc (JObj ?d)), tmp_files = 0\<rparr>)"
    by (simp add: save_def json_dumps_def fs_defs no_faults_def)
  show ?thesis
    by (rule save_load_roundtrip[OF w]) (simp_all add: no_faults_def)
qed

section \<open>Apply write\<close>

lemma get_payload_obj:
  assumes "fmlookup p k = Some v"
  shows "get_payload (Some (JObj p)) = JObj p"
  using truthy_obj[OF assms] by (simp add: get_payload_def)

lemma dumps_ok_fmupd:
  assumes "dumps_ok (JObj d)" and "dumps_ok v"
  shows "dumps_ok (JObj (fmupd k v d))"
  using assms by (auto simp: dumps_ok_obj)

lemma write_state_ok:
  assumes "load_state io1 now1 f = (Inr st, f1)"
    and "py_int count = Inr n"
    and "py_int (dict_get st (ustr ''rev'') (JInt 1)) = Inr r"
    and "\<not> makedirs_fails io2" "\<not> mkstemp_fails io2" "\<not> write_fails io2" "\<not> replace_fails io2"
    and "dumps_ok (JObj st)" and "dumps_ok color" and "int_str_ok n" and "int_str_ok (r + 1)"
  shows "write_state io1 io2 now1 now2 color count f =
    (Inr (Response 200 (JObj (fmupd (ustr ''ok'') (JBool True) fmempty ++\<^sub>f
        fmupd (ustr ''updated_at'') (JStr now2) (fmupd (ustr ''rev'') (JInt (r + 1))
          (fmupd (ustr ''count'') (JInt n) (fmupd (ustr ''color'') color st)))))),
     f1\<lparr>state_file := Some (Doc (JObj
        (fmupd (ustr ''updated_at'') (JStr now2) (fmupd (ustr ''rev'') (JInt (r + 1))
          (fmupd (ustr ''count'') (JInt n) (fmupd (ustr ''color'') color st))))))\<rparr>)"
proof -
  have "dumps_ok (JObj (fmupd (ustr ''updated_at'') (JStr now2)
      (fmupd (ustr ''rev'') (JInt (r + 1))
        (fmupd (ustr ''count'') (JInt n) (fmupd (ustr ''color'') color st)))))"
    using assms(8-11) by (intro dumps_ok_fmupd) simp_all
  from save_ok[OF this assms(4-7)] assms(1-3) show ?thesis
    by (simp add: write_state_def dict_get_def Let_def)
qed

lemma write_state_Inr:
  assumes "write_state io1 io2 now1 now2 color count f = (Inr resp, f')"
  shows "\<exists>st f1 n r. load_state io1 now1 f = (Inr st, f1) \<and> py_int count = Inr n \<and>
      py_int (dict_get st (ustr ''rev'') (JInt 1)) = Inr r \<and>
      resp = Response 200 (JObj (fmupd (ustr ''ok'') (JBool True) fmempty ++\<^sub>f
        fmupd (ustr ''updated_at'') (JStr now2) (fmupd (ustr ''rev'') (JInt (r + 1))
          (fmupd (ustr ''count'') (JInt n) (fmupd (ustr ''color'') color st))))) \<and>
      f' = f1\<lparr>state_file := Some (Doc (JObj
        (fmupd (ustr ''updated_at'') (JStr now2) (fmupd (ustr ''rev'') (JInt (r + 1))
          (fmupd (ustr ''count'') (JInt n) (fmupd (ustr ''color'') color st))))))\<rparr>"
  using assms
  by (auto simp: write_state_def dict_get_def Let_def
      split: prod.splits sum.splits dest: save_Inr)

lemma write_state_Inl:
  assumes "write_state io1 io2 now1 now2 color count f = (Inl e, f')"
  shows "state_file f' = state_file f \<or>
    (\<exists>st f1. load_state io1 now1 f = (Inr st, f1) \<and> state_file f' = state_file f1)"
  using assms
  by (auto simp: write_state_def Let_def
      split: prod.splits sum.splits dest: save_Inl load_state_Inl)

lemma write_state_Inr_rev:
  assumes "write_state io1 io2 now1 now2 color count f = (Inr resp, f')"
  shows "\<exists>st f1 r bd. load_state io1 now1 f = (Inr st, f1) \<and>
      py_int (dict_get st (ustr ''rev'') (JInt 1)) = Inr r \<and>
      resp = Response 200 (JObj bd) \<and> fmlookup bd (ustr ''rev'') = Some (JInt (r + 1)) \<and>
      stored_rev f' = Some (JInt (r + 1))"
proof -
  from write_state_Inr[OF assms]
  obtain st f1 k r where l: "load_state io1 now1 f = (Inr st, f1)"
    and r: "py_int (dict_get st (ustr ''rev'') (JInt 1)) = Inr r"
    and resp: "resp = Response 200 (JObj (fmupd (ustr ''ok'') (JBool True) fmempty ++\<^sub>f
        fmupd (ustr ''updated_at'') (JStr now2) (fmupd (ustr ''rev'') (JInt (r + 1))
          (fmupd (ustr ''count'') (JInt k) (fmupd (ustr ''color'') color st)))))"
    and f': "f' = f1\<lparr>state_file := Some (Doc (JObj
        (fmupd (ustr ''updated_at'') (JStr now2) (fmupd (ustr ''rev'') (JInt (r + 1))
          (fmupd (ustr ''count'') (JInt k) (fmupd (ustr ''color'') color st))))))\<rparr>"
    by (elim exE conjE)
  have 1: "stored_rev f' = Some (JInt (r + 1))"
    unfolding f' by (simp add: stored_rev_def dict_get_def)
  have 2: "fmlookup (fmupd (ustr ''ok'') (JBool True) fmempty ++\<^sub>f
        fmupd (ustr ''updated_at'') (JStr now2) (fmupd (ustr ''rev'') (JInt (r + 1))
          (fmupd (ustr ''count'') (JInt k) (fmupd (ustr ''color'') color st)))) (ustr ''rev'')
        = Some (JInt (r + 1))"
    by simp
  from l r resp 1 2 show ?thesis by blast
qed

lemma set_state_cases:
  assumes "set_state io1 io2 now1 now2 b f = (res, f')"
  shows "(f' = f \<and> (\<forall>bd. res \<noteq> Inr (Response 200 bd))) \<or>
    (\<exists>color count. write_state io1 io2 now1 now2 color count f = (res, f'))"
proof (cases "get_payload b")
  case (JObj p)
  obtain ok msg where v: "validate_state (dict_get p (ustr ''color'') JNull)
      (dict_get p (ustr ''count'') JNull) = (ok, msg)"
    by fastforce
  show ?thesis
  proof (cases ok)
    case True
    with assms JObj v have "write_state io1 io2 now1 now2 (dict_get p (ustr ''color'') JNull)
      (dict_get p (ustr ''count'') JNull) f = (res, f')"
      by (simp add: set_state_def)
    then show ?thesis by blast
  next
    case False
    with assms JObj v show ?thesis by (auto simp: set_state_def)
  qed
qed (use assms in \<open>auto simp: set_state_def\<close>)

lemma load_state_rev:
  assumes "\<not> makedirs_fails io" "\<not> mkstemp_fails io" "\<not> write_fails io" "\<not> replace_fails io"
    and "\<forall>d. state_file f = Some (Doc (JObj d)) \<longrightarrow> dumps_ok (JObj d) \<and>
           (\<exists>r. py_int (dict_get d (ustr ''rev'') (JInt 1)) = Inr r \<and> int_str_ok (r + 1))"
  shows "\<exists>st f1 r. load_state io now f = (Inr st, f1) \<and>
           py_int (dict_get st (ustr ''rev'') (JInt 1)) = Inr r \<and>
           int_str_ok (r + 1) \<and> dumps_ok (JObj st)"
proof (cases "\<exists>d. state_file f = Some (Doc (JObj d))")
  case True
  then obtain d where d: "state_file f = Some (Doc (JObj d))" by blast
  with assms(5) obtain r where r: "py_int (dict_get d (ustr ''rev'') (JInt 1)) = Inr r"
    and k: "int_str_ok (r + 1)" and o: "dumps_ok (JObj d)" by blast
  have "dict_get (default_state now ++\<^sub>f d) (ustr ''rev'') (JInt 1) =
        dict_get d (ustr ''rev'') (JInt 1)"
    by (auto simp: dict_get_def fmlookup_default_state fmdom_notD dest: fmdomI split: option.splits)
  moreover have "dumps_ok (JObj (default_state now ++\<^sub>f d))"
    using o dumps_ok_default[of now] by (auto simp: dumps_ok_obj split: if_splits)
  ultimately show ?thesis
    using r k load_state_obj[OF d assms(1)] by simp
next
  case False
  then have "state_file f = None \<or> state_file f = Some Corrupt \<or>
       (\<exists>v. state_file f = Some (Doc v) \<and> (\<forall>d. v \<noteq> JObj d))"
    by (cases "state_file f") (auto intro: content.exhaust)
  from load_state_not_obj[OF this assms(1)] regenerate_ok[OF assms(1-4)]
  show ?thesis
    by (simp add: dict_get_def fmlookup_default_state dumps_ok_default int_str_ok_small)
qed

text \<open>
  C1 (amended).  A POST whose body is a JSON object with a color that the pattern
  matches and a count that \<open>int()\<close> turns into a number from 0 to 8 is answered with
  200, and the color and count of the answer, and of the record written to the state
  file, are the color sent and the integer value of the count, provided that the
  system calls succeed and that, when the state file holds a JSON object, its \<open>rev\<close> is
  a value \<open>int()\<close> accepts whose successor has at most 4300 digits (the object itself
  holding no longer integer, as every text that \<open>json.load\<close> parses).
\<close>

theorem set_state_valid:
  assumes "fmlookup p (ustr ''color'') = Some (JStr c)" and "HEX_COLOR_RE_match c"
    and "fmlookup p (ustr ''count'') = Some cnt" and "py_int cnt = Inr n"
    and "0 \<le> n" and "n \<le> 8"
    and "\<not> makedirs_fails io1" "\<not> mkstemp_fails io1" "\<not> write_fails io1" "\<not> replace_fails io1"
    and "\<not> makedirs_fails io2" "\<not> mkstemp_fails io2" "\<not> write_fails io2" "\<not> replace_fails io2"
    and "\<forall>d. state_file f = Some (Doc (JObj d)) \<longrightarrow> dumps_ok (JObj d) \<and>
           (\<exists>r. py_int (dict_get d (ustr ''rev'') (JInt 1)) = Inr r \<and> int_str_ok (r + 1))"
  shows "\<exists>bd st f'.
           set_state io1 io2 now1 now2 (Some (JObj p)) f = (Inr (Response 200 (JObj bd)), f') \<and>
           fmlookup bd (ustr ''color'') = Some (JStr c) \<and>
           fmlookup bd (ustr ''count'') = Some (JInt n) \<and>
           state_file f' = Some (Doc (JObj st)) \<and>
           fmlookup st (ustr ''color'') = Some (JStr c) \<and>
           fmlookup st (ustr ''count'') = Some (JInt n)"
proof -
  have v: "validate_state (JStr c) cnt = (True, [])"
    using assms(2,4,5,6) by (simp add: validate_state_def LED_MIN_def LED_MAX_def)
  obtain st f1 r where l: "load_state io1 now1 f = (Inr st, f1)"
    and r: "py_int (dict_get st (ustr ''rev'') (JInt 1)) = Inr r"
    and k: "int_str_ok (r + 1)" and o: "dumps_ok (JObj st)"
    using load_state_rev[OF assms(7-10) assms(15)] by blast
  have n: "int_str_ok n"
    using assms(5,6) by (intro int_str_ok_small) simp
  have c: "dumps_ok (JStr c)"
    by simp
  have "set_state io1 io2 now1 now2 (Some (JObj p)) f =
      write_state io1 io2 now1 now2 (JStr c) cnt f"
    using v assms(1,3) by (simp add: set_state_def get_payload_obj[OF assms(1)] dict_get_def)
  then show ?thesis
    using write_state_ok[OF l assms(4) r assms(11-14) o c n k] by simp
qed

theorem set_state_valid_witness:
  "\<exists>bd st f'.
     set_state no_faults no_faults (ustr ''t1'') (ustr ''t2'')
       (Some (JObj (fmap_of_list
          [(ustr ''color'', JStr (ustr ''#00ff00'')), (ustr ''count'', JStr (ustr ''3''))])))
       \<lparr>state_file = None, tmp_files = 0\<rparr> = (Inr (Response 200 (JObj bd)), f') \<and>
     fmlookup bd (ustr ''color'') = Some (JStr (ustr ''#00ff00'')) \<and>
     fmlookup bd (ustr ''count'') = Some (JInt 3) \<and>
     state_file f' = Some (Doc (JObj st)) \<and>
     fmlookup st (ustr ''color'') = Some (JStr (ustr ''#00ff00'')) \<and>
     fmlookup st (ustr ''count'') = Some (JInt 3)"
proof (rule set_state_valid)
  show "HEX_COLOR_RE_match (ustr ''#00ff00'')"
    by (simp add: HEX_COLOR_RE_match_def is_hex_def ustr_def)
  show "py_int (JStr (ustr ''3'')) = Inr 3"
    by (simp add: py_int_str_def strip_def is_space_def ustr_def unicode_decimal_def
        decimal_zeros_def decimal_value_def int_max_str_digits_def)
qed (simp_all add: no_faults_def)

text \<open>
  The claim as it stands fails on a state file that holds \<open>{"rev": null}\<close>: the file is
  loaded as it is, \<open>int(None)\<close> raises \<open>TypeError\<close> in the view, and the valid color and
  count are answered with 500, nothing being written.
\<close>

theorem set_state_null_rev:
  "set_state no_faults no_faults (ustr ''t1'') (ustr ''t2'')
     (Some (JObj (fmap_of_list
        [(ustr ''color'', JStr (ustr ''#00ff00'')), (ustr ''count'', JInt 3)])))
     \<lparr>state_file = Some (Doc (JObj (fmap_of_list [(ustr ''rev'', JNull)]))), tmp_files = 0\<rparr> =
   (Inl TypeError,
    \<lparr>state_file = Some (Doc (JObj (fmap_of_list [(ustr ''rev'', JNull)]))), tmp_files = 0\<rparr>)"
  by (simp add: set_state_def get_payload_def dict_get_def validate_defs ustr_def
      write_state_def load_state_def read_state_def setdefault_def no_faults_def)

text \<open>
  So does it on a stored \<open>rev\<close> of 4300 nines: the file loads, \<open>rev + 1\<close> has 4301
  digits, \<open>json.dumps\<close> raises \<open>ValueError\<close> before any file is touched.
\<close>

lemma set_state_huge_rev:
  "set_state no_faults no_faults (ustr ''t1'') (ustr ''t2'')
     (Some (JObj (fmap_of_list
        [(ustr ''color'', JStr (ustr ''#00ff00'')), (ustr ''count'', JInt 3)])))
     \<lparr>state_file = Some (Doc (JObj (fmap_of_list
        [(ustr ''rev'', JInt (10 ^ int_max_str_digits - 1))]))), tmp_files = 0\<rparr> =
   (Inl ValueError,
    \<lparr>state_file = Some (Doc (JObj (fmap_of_list
        [(ustr ''rev'', JInt (10 ^ int_max_str_digits - 1))]))), tmp_files = 0\<rparr>)"
proof -
  let ?d = "fmap_of_list [(ustr ''rev'', JInt (10 ^ int_max_str_digits - 1))]"
  let ?f = "\<lparr>state_file = Some (Doc (JObj ?d)), tmp_files = 0\<rparr>"
  let ?st = "default_state (ustr ''t1'') ++\<^sub>f ?d"
  let ?st4 = "fmupd (ustr ''updated_at'') (JStr (ustr ''t2''))
      (fmupd (ustr ''rev'') (JInt (10 ^ int_max_str_digits - 1 + 1))
        (fmupd (ustr ''count'') (JInt 3) (fmupd (ustr ''color'') (JStr (ustr ''#00ff00'')) ?st)))"
  have l: "load_state no_faults (ustr ''t1'') ?f = (Inr ?st, ?f)"
    by (rule load_state_obj) (simp_all add: no_faults_def)
  have "fmlookup ?st4 (ustr ''rev'') = Some (JInt (10 ^ int_max_str_digits))"
    by simp
  moreover have "\<not> dumps_ok (JInt (10 ^ int_max_str_digits))"
    by (simp add: int_str_ok_def)
  ultimately have "\<not> dumps_ok (JObj ?st4)"
    unfolding dumps_ok_obj by blast
  then have s: "save no_faults ?st4 ?f = (Inl ValueError, ?f)"
    by (simp add: save_def json_dumps_def)
  have v: "validate_state (JStr (ustr ''#00ff00'')) (JInt 3) = (True, [])"
    by (simp add: validate_defs ustr_def)
  have "set_state no_faults no_faults (ustr ''t1'') (ustr ''t2'')
     (Some (JObj (fmap_of_list
        [(ustr ''color'', JStr (ustr ''#00ff00'')), (ustr ''count'', JInt 3)]))) ?f =
     write_state no_faults no_faults (ustr ''t1'') (ustr ''t2'') (JStr (ustr ''#00ff00''))
        (JInt 3) ?f"
    using v by (simp add: set_state_def get_payload_def dict_get_def)
  also have "\<dots> = (Inl ValueError, ?f)"
    using s unfolding write_state_def l by (simp add: dict_get_def Let_def)
  finally show ?thesis .
qed

section \<open>The revision counter\<close>

lemma stored_rev_same:
  "state_file f' = state_file f \<Longrightarrow> stored_rev f' = stored_rev f"
  by (simp add: stored_rev_def)

lemma load_state_stored:
  assumes "stored_rev f = Some v" and "load_state io now f = (res, f1)"
  shows "state_file f1 = state_file f \<and>
    (\<forall>st. res = Inr st \<longrightarrow> dict_get st (ustr ''rev'') (JInt 1) = v)"
proof -
  from assms(1) obtain d where d: "state_file f = Some (Doc (JObj d))"
    and v: "dict_get d (ustr ''rev'') (JInt 1) = v"
    by (auto simp: stored_rev_def split: option.splits content.splits json.splits)
  have e: "dict_get (default_state now ++\<^sub>f d) (ustr ''rev'') (JInt 1) =
        dict_get d (ustr ''rev'') (JInt 1)"
    by (auto simp: dict_get_def fmlookup_default_state fmdom_notD dest: fmdomI split: option.splits)
  show ?thesis
  proof (cases "makedirs_fails io")
    case True
    with assms(2) show ?thesis by (auto simp: load_state_def)
  next
    case False
    from load_state_obj[OF d False, of now] assms(2) e v show ?thesis by simp
  qed
qed

lemma load_state_unstored:
  assumes "stored_rev f = None" and "load_state io now f = (Inr st, f1)"
  shows "st = default_state now"
proof -
  from assms(1) have n: "state_file f = None \<or> state_file f = Some Corrupt \<or>
       (\<exists>v. state_file f = Some (Doc v) \<and> (\<forall>d. v \<noteq> JObj d))"
    by (auto simp: stored_rev_def split: option.splits content.splits json.splits)
  have m: "\<not> makedirs_fails io"
    using assms(2) by (auto simp: load_state_def)
  from load_state_not_obj[OF n m, of now] assms(2)
  have "regenerate io now f = (Inr st, f1)" by simp
  from regenerate_Inr[OF this] show ?thesis by simp
qed

lemma write_state_rev_step:
  assumes "stored_rev f = Some (JInt n)"
    and w: "write_state io1 io2 now1 now2 color count f = (res, f')"
  shows "stored_rev f' = Some (JInt n) \<or> stored_rev f' = Some (JInt (n + 1))"
proof (cases res)
  case (Inl e)
  from write_state_Inl[OF w[unfolded Inl]]
  have "state_file f' = state_file f"
  proof
    assume "\<exists>st f1. load_state io1 now1 f = (Inr st, f1) \<and> state_file f' = state_file f1"
    then obtain st f1 where "load_state io1 now1 f = (Inr st, f1)"
      and "state_file f' = state_file f1" by blast
    with load_state_stored[OF assms(1) this(1)] show ?thesis by simp
  qed
  then have "stored_rev f' = stored_rev f" by (rule stored_rev_same)
  with assms(1) show ?thesis by simp
next
  case (Inr resp)
  from write_state_Inr_rev[OF w[unfolded Inr]]
  obtain st f1 r where l: "load_state io1 now1 f = (Inr st, f1)"
    and r: "py_int (dict_get st (ustr ''rev'') (JInt 1)) = Inr r"
    and s: "stored_rev f' = Some (JInt (r + 1))"
    by blast
  from load_state_stored[OF assms(1) l] r have "r = n" by simp
  with s show ?thesis by simp
qed

lemma set_state_rev_step:
  assumes "stored_rev f = Some (JInt n)"
  shows "stored_rev (snd (set_state io1 io2 now1 now2 b f)) = Some (JInt n) \<or>
         stored_rev (snd (set_state io1 io2 now1 now2 b f)) = Some (JInt (n + 1))"
proof (cases "set_state io1 io2 now1 now2 b f")
  case (Pair res f')
  from set_state_cases[OF Pair] show ?thesis
  proof
    assume "f' = f \<and> (\<forall>bd. res \<noteq> Inr (Response 200 bd))"
    with Pair assms show ?thesis by simp
  next
    assume "\<exists>color count. write_state io1 io2 now1 now2 color count f = (res, f')"
    then obtain color count where "write_state io1 io2 now1 now2 color count f = (res, f')"
      by blast
    from write_state_rev_step[OF assms this] Pair show ?thesis by simp
  qed
qed

lemma dispatch_rev_step:
  assumes "stored_rev f = Some (JInt n)"
  shows "stored_rev (snd (dispatch r f)) = Some (JInt n) \<or>
         stored_rev (snd (dispatch r f)) = Some (JInt (n + 1))"
proof (cases r)
  case (GetState io now)
  obtain res1 f1 where l: "load_state io now f = (res1, f1)"
    by fastforce
  have "state_file (snd (get_state io now f)) = state_file f"
    using load_state_stored[OF assms l] l
    by (auto simp: get_state_def split: sum.splits)
  then have "stored_rev (snd (get_state io now f)) = stored_rev f" by (rule stored_rev_same)
  with GetState assms show ?thesis by simp
next
  case (PostState io1 io2 now1 now2 b)
  with set_state_rev_step[OF assms] show ?thesis by simp
next
  case (GetHealth now)
  with assms show ?thesis by simp
qed

lemma serve_rev_mono:
  "stored_rev f = Some (JInt n) \<Longrightarrow> \<exists>m\<ge>n. stored_rev (serve rs f) = Some (JInt m)"
proof (induction rs arbitrary: f n)
  case Nil
  then show ?case by auto
next
  case (Cons r rs)
  from dispatch_rev_step[OF Cons.prems, of r]
  obtain k where k: "stored_rev (snd (dispatch r f)) = Some (JInt k)" "n \<le> k" by auto
  from Cons.IH[OF k(1)] k(2) show ?case
    by (auto intro: order_trans)
qed

lemma set_state_200:
  assumes "set_state io1 io2 now1 now2 b f = (Inr (Response 200 (JObj bd)), f')"
  shows "\<exists>st f1 r. load_state io1 now1 f = (Inr st, f1) \<and>
      py_int (dict_get st (ustr ''rev'') (JInt 1)) = Inr r \<and>
      fmlookup bd (ustr ''rev'') = Some (JInt (r + 1)) \<and>
      stored_rev f' = Some (JInt (r + 1))"
proof -
  from set_state_cases[OF assms]
  obtain color count where
    "write_state io1 io2 now1 now2 color count f = (Inr (Response 200 (JObj bd)), f')"
    by blast
  from write_state_Inr_rev[OF this] show ?thesis by auto
qed

text \<open>
  C3.  A successful write (a POST answered with 200) on a state file whose record has
  the integer \<open>rev\<close> n answers and stores \<open>rev\<close> n + 1; on a state file that is absent
  or holds no JSON object it answers and stores \<open>rev\<close> 2, the regenerated record having
  \<open>rev\<close> 1.  Over any sequence of requests, whatever their system calls do, the stored
  integer \<open>rev\<close> never decreases.  The first load on an absent state file, its system
  calls succeeding, yields and stores the default record, whose \<open>rev\<close> is 1.
\<close>

theorem rev_increments:
  "(\<forall>bd f'. stored_rev f = Some (JInt n) \<and>
      set_state io1 io2 now1 now2 b f = (Inr (Response 200 (JObj bd)), f') \<longrightarrow>
      fmlookup bd (ustr ''rev'') = Some (JInt (n + 1)) \<and>
      stored_rev f' = Some (JInt (n + 1))) \<and>
   (\<forall>bd f'. stored_rev f = None \<and>
      set_state io1 io2 now1 now2 b f = (Inr (Response 200 (JObj bd)), f') \<longrightarrow>
      fmlookup bd (ustr ''rev'') = Some (JInt 2) \<and> stored_rev f' = Some (JInt 2)) \<and>
   (stored_rev f = Some (JInt n) \<longrightarrow> (\<exists>m\<ge>n. stored_rev (serve rs f) = Some (JInt m))) \<and>
   (state_file f = None \<and> \<not> makedirs_fails io \<and> \<not> mkstemp_fails io \<and> \<not> write_fails io \<and>
      \<not> replace_fails io \<longrightarrow>
      load_state io now f =
        (Inr (default_state now), f\<lparr>state_file := Some (Doc (JObj (default_state now)))\<rparr>) \<and>
      fmlookup (default_state now) (ustr ''rev'') = Some (JInt 1) \<and>
      stored_rev (snd (load_state io now f)) = Some (JInt 1))"
proof (intro conjI allI impI)
  fix bd f'
  assume a: "stored_rev f = Some (JInt n) \<and>
      set_state io1 io2 now1 now2 b f = (Inr (Response 200 (JObj bd)), f')"
  from set_state_200[OF a[THEN conjunct2]]
  obtain st f1 r where l: "load_state io1 now1 f = (Inr st, f1)"
    and r: "py_int (dict_get st (ustr ''rev'') (JInt 1)) = Inr r"
    and c: "fmlookup bd (ustr ''rev'') = Some (JInt (r + 1))" "stored_rev f' = Some (JInt (r + 1))"
    by blast
  from load_state_stored[OF a[THEN conjunct1] l] r have "r = n" by simp
  with c show "fmlookup bd (ustr ''rev'') = Some (JInt (n + 1))"
    and "stored_rev f' = Some (JInt (n + 1))" by simp_all
next
  fix bd f'
  assume a: "stored_rev f = None \<and>
      set_state io1 io2 now1 now2 b f = (Inr (Response 200 (JObj bd)), f')"
  from set_state_200[OF a[THEN conjunct2]]
  obtain st f1 r where l: "load_state io1 now1 f = (Inr st, f1)"
    and r: "py_int (dict_get st (ustr ''rev'') (JInt 1)) = Inr r"
    and c: "fmlookup bd (ustr ''rev'') = Some (JInt (r + 1))" "stored_rev f' = Some (JInt (r + 1))"
    by blast
  from load_state_unstored[OF a[THEN conjunct1] l] r have "r = 1"
    by (simp add: dict_get_def fmlookup_default_state)
  with c show "fmlookup bd (ustr ''rev'') = Some (JInt 2)"
    and "stored_rev f' = Some (JInt 2)" by simp_all
next
  assume "stored_rev f = Some (JInt n)"
  then show "\<exists>m\<ge>n. stored_rev (serve rs f) = Some (JInt m)"
    by (rule serve_rev_mono)
next
  assume a: "state_file f = None \<and> \<not> makedirs_fails io \<and> \<not> mkstemp_fails io \<and>
      \<not> write_fails io \<and> \<not> replace_fails io"
  then have "load_state io now f = regenerate io now f"
    by (intro load_state_not_obj) simp_all
  with a show l: "load_state io now f =
        (Inr (default_state now), f\<lparr>state_file := Some (Doc (JObj (default_state now)))\<rparr>)"
    by (simp add: regenerate_ok)
  show "fmlookup (default_state now) (ustr ''rev'') = Some (JInt 1)"
    by (simp add: fmlookup_default_state)
  show "stored_rev (snd (load_state io now f)) = Some (JInt 1)"
    unfolding l by (simp add: stored_rev_def dict_get_def fmlookup_default_state)
qed

theorem rev_increments_witness:
  "stored_rev \<lparr>state_file = Some (Doc (JObj (default_state (ustr ''t0'')))), tmp_files = 0\<rparr> =
     Some (JInt 1) \<and>
   stored_rev (snd (set_state no_faults no_faults (ustr ''t1'') (ustr ''t2'')
     (Some (JObj (fmap_of_list
        [(ustr ''color'', JStr (ustr ''#00ff00'')), (ustr ''count'', JInt 3)])))
     \<lparr>state_file = Some (Doc (JObj (default_state (ustr ''t0'')))), tmp_files = 0\<rparr>)) =
     Some (JInt 2) \<and>
   (\<exists>m\<ge>1. stored_rev (serve
      [GetState no_faults (ustr ''t1''),
       PostState no_faults (no_faults\<lparr>write_fails := True\<rparr>) (ustr ''t2'') (ustr ''t3'') None]
      \<lparr>state_file = Some (Doc (JObj (default_state (ustr ''t0'')))), tmp_files = 0\<rparr>) =
      Some (JInt m)) \<and>
   stored_rev (snd (load_state no_faults (ustr ''t0'') \<lparr>state_file = None, tmp_files = 0\<rparr>)) =
     Some (JInt 1)"
proof -
  let ?f = "\<lparr>state_file = Some (Doc (JObj (default_state (ustr ''t0'')))), tmp_files = 0\<rparr>"
  let ?b = "Some (JObj (fmap_of_list
        [(ustr ''color'', JStr (ustr ''#00ff00'')), (ustr ''count'', JInt 3)]))"
  let ?rs = "[GetState no_faults (ustr ''t1''),
       PostState no_faults (no_faults\<lparr>write_fails := True\<rparr>) (ustr ''t2'') (ustr ''t3'') None]"
  have s: "stored_rev ?f = Some (JInt 1)"
    by (simp add: stored_rev_def dict_get_def fmlookup_default_state)
  have l: "load_state no_faults (ustr ''t1'') ?f =
      (Inr (default_state (ustr ''t1'') ++\<^sub>f default_state (ustr ''t0'')), ?f)"
    by (rule load_state_obj) (simp_all add: no_faults_def)
  have r: "py_int (dict_get (default_state (ustr ''t1'') ++\<^sub>f default_state (ustr ''t0''))
      (ustr ''rev'') (JInt 1)) = Inr 1"
    by (simp add: dict_get_def fmlookup_default_state)
  have v: "validate_state (JStr (ustr ''#00ff00'')) (JInt 3) = (True, [])"
    by (simp add: validate_defs ustr_def)
  have "set_state no_faults no_faults (ustr ''t1'') (ustr ''t2'') ?b ?f =
      write_state no_faults no_faults (ustr ''t1'') (ustr ''t2'') (JStr (ustr ''#00ff00''))
        (JInt 3) ?f"
    using v by (simp add: set_state_def get_payload_def dict_get_def)
  moreover have "dumps_ok (JObj (default_state (ustr ''t1'') ++\<^sub>f default_state (ustr ''t0'')))"
    using dumps_ok_default[of "ustr ''t0''"] dumps_ok_default[of "ustr ''t1''"]
    by (auto simp: dumps_ok_obj split: if_splits)
  ultimately obtain bd f' where
    e: "set_state no_faults no_faults (ustr ''t1'') (ustr ''t2'') ?b ?f =
      (Inr (Response 200 (JObj bd)), f')"
    using write_state_ok[OF l _ r, where count = "JInt 3" and n = 3 and ?io2.0 = no_faults
        and ?now2.0 = "ustr ''t2''" and color = "JStr (ustr ''#00ff00'')"]
    by (simp add: no_faults_def int_str_ok_small)
  note c = rev_increments[of ?f 1 no_faults no_faults "ustr ''t1''" "ustr ''t2''" ?b ?rs]
  from c[THEN conjunct1] s e
  have 1: "stored_rev f' = Some (JInt 2)"
    by simp
  from c[THEN conjunct2, THEN conjunct2, THEN conjunct1] s
  have 2: "\<exists>m\<ge>1. stored_rev (serve ?rs ?f) = Some (JInt m)"
    by (rule mp)
  have h: "state_file \<lparr>state_file = None, tmp_files = 0\<rparr> = None \<and>
      \<not> makedirs_fails no_faults \<and> \<not> mkstemp_fails no_faults \<and> \<not> write_fails no_faults \<and>
      \<not> replace_fails no_faults"
    by (simp add: no_faults_def)
  from rev_increments[of "\<lparr>state_file = None, tmp_files = 0\<rparr>" 1 no_faults no_faults
      "ustr ''t1''" "ustr ''t2''" ?b ?rs no_faults "ustr ''t0''",
      THEN conjunct2, THEN conjunct2, THEN conjunct2, THEN mp, OF h]
  have 3: "stored_rev (snd (load_state no_faults (ustr ''t0'')
      \<lparr>state_file = None, tmp_files = 0\<rparr>)) = Some (JInt 1)"
    by (elim conjE)
  have 4: "stored_rev (snd (set_state no_faults no_faults (ustr ''t1'') (ustr ''t2'') ?b ?f)) =
      Some (JInt 2)"
    unfolding e using 1 by simp
  from s 4 2 3 show ?thesis
    by (intro conjI)
qed

end
